theory Spec2Isabelle
  imports Main
begin

section \<open>Messages\<close>

text \<open>
  An inbound \<^verbatim>\<open>ChalithMessage\<close> as the component reads it: the sender
  (\<^verbatim>\<open>source_process_id\<close>), the identifier (\<^verbatim>\<open>message_id\<close>), the epoch the sender
  tagged it with (\<^verbatim>\<open>epoch_number\<close>) and the payload, the property
  \<^verbatim>\<open>chalith_value\<close> of the message class (named \<open>msg_chalith_value\<close> here, since
  the component has an attribute of the same name).
\<close>

record chalith_message =
  source_process_id :: string
  message_id :: string
  epoch_number :: int
  msg_chalith_value :: string

text \<open>
  \<^verbatim>\<open>general_message_handler\<close> receives \<^verbatim>\<open>Union[BaseMessage, Any]\<close> and
  dispatches with \<^verbatim>\<open>isinstance(message_object, ChalithMessage)\<close>.
\<close>

datatype message_object = Chalith chalith_message | OtherObject

text \<open>
  The keyword arguments \<^verbatim>\<open>_send_chalith_message\<close> hands to the message generator, and
  what the component gives to the message bus: the result message built from them, or the
  error message of the \<^verbatim>\<open>except\<close> branch.
\<close>

record result_attributes =
  EpochNumber :: int
  TriggeringMessageIds :: "string list"
  ChalithValue :: string

datatype outgoing = ResultMessage result_attributes | ErrorMessage string

section \<open>The component\<close>

text \<open>
  The attributes of \<^verbatim>\<open>ChalithComponent\<close> that the epoch logic reads or writes.
  \<open>latest_epoch\<close> and \<open>triggering_message_ids\<close> are the attributes
  \<^verbatim>\<open>_latest_epoch\<close> and \<^verbatim>\<open>_triggering_message_ids\<close> inherited from
  \<^verbatim>\<open>AbstractSimulationComponent\<close>; \<open>sent\<close> records, in order, every message passed
  to the message bus.
\<close>

record chalith_component =
  chalith_value :: string
  input_components :: "string set"
  current_message :: string
  current_input_components :: "string set"
  latest_epoch :: int
  triggering_message_ids :: "string list"
  sent :: "outgoing list"

text \<open>
  \<^verbatim>\<open>__init__\<close>: the accumulator starts empty and nobody has arrived.
  Modelled from the spec: the starting values of the inherited attributes, which the base
  class sets (epoch number 0, no causal ids); nothing has been sent yet.
\<close>

definition init_component :: "string set \<Rightarrow> string \<Rightarrow> chalith_component" where
  "init_component input_components' chalith_value' =
     \<lparr>chalith_value = chalith_value',
      input_components = input_components',
      current_message = '''',
      current_input_components = {},
      latest_epoch = 0,
      triggering_message_ids = [],
      sent = []\<rparr>"

definition clear_epoch_variables :: "chalith_component \<Rightarrow> chalith_component" where
  "clear_epoch_variables s = s\<lparr>current_message := '''', current_input_components := {}\<rparr>"

text \<open>
  \<^verbatim>\<open>_send_chalith_message\<close>. The message generator, the constructor of the message
  class and the client of the message bus belong to the package \<^verbatim>\<open>tools\<close>; the
  parameter \<open>get_message\<close> tells whether the \<^verbatim>\<open>try\<close> block, which builds the
  message from the given attributes and hands it to the client, completes (\<open>True\<close>)
  or raises one of \<^verbatim>\<open>ValueError\<close>, \<^verbatim>\<open>TypeError\<close>, \<^verbatim>\<open>MessageError\<close>
  (\<open>False\<close>), in which case the \<^verbatim>\<open>except\<close> branch sends an error message
  instead. An exception of another class is outside the model.
\<close>

definition send_chalith_message ::
  "(result_attributes \<Rightarrow> bool) \<Rightarrow> chalith_component \<Rightarrow> chalith_component" where
  "send_chalith_message get_message s =
     (let attributes = \<lparr>EpochNumber = latest_epoch s,
                        TriggeringMessageIds = triggering_message_ids s,
                        ChalithValue = current_message s\<rparr>
      in if get_message attributes
         then s\<lparr>sent := sent s @ [ResultMessage attributes]\<rparr>
         else s\<lparr>sent := sent s @ [ErrorMessage ''Internal error when creating result message.'']\<rparr>)"

definition process_epoch ::
  "(result_attributes \<Rightarrow> bool) \<Rightarrow> chalith_component \<Rightarrow> chalith_component \<times> bool" where
  "process_epoch get_message s =
     (let s1 = (if current_input_components s \<noteq> {}
                then s\<lparr>current_message := current_message s @ chalith_value s\<rparr>
                else s\<lparr>current_message := chalith_value s\<rparr>)
      in (send_chalith_message get_message s1, True))"

definition all_messages_received_for_epoch :: "chalith_component \<Rightarrow> bool" where
  "all_messages_received_for_epoch s \<longleftrightarrow> input_components s = current_input_components s"

text \<open>
  Modelled from the spec: \<^verbatim>\<open>start_epoch\<close> is a method of the base class
  \<^verbatim>\<open>AbstractSimulationComponent\<close> (package \<^verbatim>\<open>tools\<close>), which is not among the
  sources. The specification has the controller evaluate the completion predicate and,
  when it holds, finalize and publish; the handler's use of the result
  (\<^verbatim>\<open>if not await self.start_epoch(): ... "Waiting for other input messages"\<close>) agrees
  with it.
\<close>

definition start_epoch ::
  "(result_attributes \<Rightarrow> bool) \<Rightarrow> chalith_component \<Rightarrow> chalith_component \<times> bool" where
  "start_epoch get_message s =
     (if all_messages_received_for_epoch s then process_epoch get_message s else (s, False))"

text \<open>
  \<^verbatim>\<open>general_message_handler\<close>. The routing key is only written to the log and is left
  out. The three assignments of the accepting branch are made in the order of the source.
\<close>

definition general_message_handler ::
  "(result_attributes \<Rightarrow> bool) \<Rightarrow> message_object \<Rightarrow> chalith_component \<Rightarrow> chalith_component" where
  "general_message_handler get_message message s =
     (case message of
        Chalith m \<Rightarrow>
          if source_process_id m \<notin> input_components s then s
          else if source_process_id m \<in> current_input_components s then s
          else
            (let s1 = s\<lparr>current_input_components :=
                          insert (source_process_id m) (current_input_components s)\<rparr>;
                 s2 = s1\<lparr>current_message := current_message s1 @ msg_chalith_value m\<rparr>;
                 s3 = s2\<lparr>triggering_message_ids := triggering_message_ids s2 @ [message_id m]\<rparr>
             in fst (start_epoch get_message s3))
      | OtherObject \<Rightarrow> s)"

text \<open>
  Modelled from the spec: the start of an epoch is handled by the base class
  \<^verbatim>\<open>AbstractSimulationComponent\<close> (package \<^verbatim>\<open>tools\<close>), which is not among the
  sources. The specification's \<^verbatim>\<open>onEpochStart(epochNumber)\<close> resets the epoch state
  (arrived set, accumulator, causal ids) for the given epoch number and, when the
  expected set is empty, goes on to finalize at once. The reset of the two attributes
  of this class is \<open>clear_epoch_variables\<close>.
\<close>

definition epoch_start ::
  "(result_attributes \<Rightarrow> bool) \<Rightarrow> int \<Rightarrow> chalith_component \<Rightarrow> chalith_component" where
  "epoch_start get_message n s =
     fst (start_epoch get_message
            ((clear_epoch_variables s)\<lparr>latest_epoch := n, triggering_message_ids := []\<rparr>))"

text \<open>
  Messages are delivered to the handler one at a time. \<open>handle_messages\<close> is the state
  after a sequence of deliveries, \<open>observations\<close> the list of states seen on the way:
  the starting state and the state after each delivery.
\<close>

fun handle_messages ::
  "(result_attributes \<Rightarrow> bool) \<Rightarrow> message_object list \<Rightarrow> chalith_component
     \<Rightarrow> chalith_component" where
  "handle_messages get_message [] s = s"
| "handle_messages get_message (m # ms) s =
     handle_messages get_message ms (general_message_handler get_message m s)"

fun observations ::
  "(result_attributes \<Rightarrow> bool) \<Rightarrow> message_object list \<Rightarrow> chalith_component
     \<Rightarrow> chalith_component list" where
  "observations get_message [] s = [s]"
| "observations get_message (m # ms) s =
     s # observations get_message ms (general_message_handler get_message m s)"

text \<open>
  A peer contribution as the specification's \<^verbatim>\<open>onPeerContribution\<close> names its parts.
\<close>

definition contribution :: "string \<Rightarrow> string \<Rightarrow> int \<Rightarrow> string \<Rightarrow> message_object" where
  "contribution participant causal_id for_epoch v =
     Chalith \<lparr>source_process_id = participant, message_id = causal_id,
              epoch_number = for_epoch, msg_chalith_value = v\<rparr>"

section \<open>Reading a message from JSON\<close>



section \<open>Notions used in the statements\<close>

text \<open>
  What \<open>send_chalith_message\<close> hands to the message bus in state \<open>s\<close>: the result
  message with the current epoch, causal ids and accumulator, or the error message.
\<close>

definition published ::
  "(result_attributes \<Rightarrow> bool) \<Rightarrow> chalith_component \<Rightarrow> outgoing" where
  "published get_message s =
     (let attributes = \<lparr>EpochNumber = latest_epoch s,
                        TriggeringMessageIds = triggering_message_ids s,
                        ChalithValue = current_message s\<rparr>
      in if get_message attributes then ResultMessage attributes
         else ErrorMessage ''Internal error when creating result message.'')"

text \<open>
  The accepted contributions of a sequence of deliveries, in arrival order: those from
  an expected participant that has not contributed before. This is a specification of
  its own, written without the handler's state; the theorem on the published value
  compares the handler with it.
\<close>

fun accepted_contributions ::
  "string set \<Rightarrow> string set \<Rightarrow> message_object list \<Rightarrow> chalith_message list" where
  "accepted_contributions expected arrived [] = []"
| "accepted_contributions expected arrived (OtherObject # ms) =
     accepted_contributions expected arrived ms"
| "accepted_contributions expected arrived (Chalith m # ms) =
     (if source_process_id m \<in> expected \<and> source_process_id m \<notin> arrived
      then m # accepted_contributions expected (insert (source_process_id m) arrived) ms
      else accepted_contributions expected arrived ms)"

text \<open>
  The invariant of one epoch: the epoch number is \<open>n\<close>, and what has been sent since
  the epoch started is nothing while the completion predicate is false and exactly one
  message once it holds.
\<close>

definition epoch_invariant ::
  "(result_attributes \<Rightarrow> bool) \<Rightarrow> int \<Rightarrow> outgoing list \<Rightarrow> chalith_component \<Rightarrow> bool" where
  "epoch_invariant get_message n before t \<longleftrightarrow>
     latest_epoch t = n \<and>
     sent t = before @ (if all_messages_received_for_epoch t
                        then [published get_message t] else [])"

section \<open>Basic facts\<close>

lemmas component_defs =
  general_message_handler_def start_epoch_def process_epoch_def send_chalith_message_def
  all_messages_received_for_epoch_def clear_epoch_variables_def published_def Let_def

lemma send_chalith_message_published:
  "send_chalith_message gm s = s\<lparr>sent := sent s @ [published gm s]\<rparr>"
  by (simp add: send_chalith_message_def published_def Let_def)

lemma published_sent_irrelevant [simp]:
  "published gm (s\<lparr>sent := xs\<rparr>) = published gm s"
  by (simp add: published_def)

lemma start_epoch_frame [simp]:
  "input_components (fst (start_epoch gm s)) = input_components s"
  "current_input_components (fst (start_epoch gm s)) = current_input_components s"
  "chalith_value (fst (start_epoch gm s)) = chalith_value s"
  "latest_epoch (fst (start_epoch gm s)) = latest_epoch s"
  "triggering_message_ids (fst (start_epoch gm s)) = triggering_message_ids s"
  by (simp_all add: component_defs)

lemma handler_frame [simp]:
  "input_components (general_message_handler gm m s) = input_components s"
  "chalith_value (general_message_handler gm m s) = chalith_value s"
  "latest_epoch (general_message_handler gm m s) = latest_epoch s"
  by (simp_all add: general_message_handler_def Let_def split: message_object.split)

lemma handler_complete_fixed:
  "all_messages_received_for_epoch s \<Longrightarrow> general_message_handler gm m s = s"
  by (auto simp: general_message_handler_def all_messages_received_for_epoch_def
           split: message_object.split)

lemma handle_messages_complete_fixed:
  "all_messages_received_for_epoch s \<Longrightarrow> handle_messages gm ms s = s"
  by (induction ms) (simp_all add: handler_complete_fixed)

lemma handler_arrived:
  "current_input_components (general_message_handler gm m s) =
     (case m of
        Chalith c \<Rightarrow>
          if source_process_id c \<in> input_components s
          then insert (source_process_id c) (current_input_components s)
          else current_input_components s
      | OtherObject \<Rightarrow> current_input_components s)"
  by (auto simp: general_message_handler_def Let_def split: message_object.split)

lemma handler_arrived_mono:
  "current_input_components s \<subseteq> current_input_components (general_message_handler gm m s)"
  by (auto simp: handler_arrived split: message_object.split)

lemma handler_arrived_subset:
  "current_input_components s \<subseteq> input_components s \<Longrightarrow>
     current_input_components (general_message_handler gm m s) \<subseteq> input_components s"
  by (auto simp: handler_arrived split: message_object.split)

lemma hd_observations [simp]: "hd (observations gm ms s) = s"
  by (cases ms) simp_all

lemma observations_not_Nil [simp]: "observations gm ms s \<noteq> []"
  by (cases ms) simp_all

lemma observations_invariant:
  assumes "P s" and "\<And>m t. P t \<Longrightarrow> P (general_message_handler gm m t)"
  shows "\<forall>t \<in> set (observations gm ms s). P t"
  using assms(1)
proof (induction ms arbitrary: s)
  case Nil
  then show ?case by simp
next
  case (Cons m ms)
  from Cons.prems have "P (general_message_handler gm m s)" by (rule assms(2))
  with Cons.IH Cons.prems show ?case by simp
qed

lemma observations_arrived_grow:
  "successively (\<lambda>a b. current_input_components a \<subseteq> current_input_components b)
     (observations gm ms s)"
  by (induction ms arbitrary: s) (simp_all add: successively_Cons handler_arrived_mono)

lemma last_observations: "last (observations gm ms s) = handle_messages gm ms s"
  by (induction ms arbitrary: s) simp_all

lemma accepted_none:
  "expected \<subseteq> arrived \<Longrightarrow> accepted_contributions expected arrived ms = []"
  by (induction expected arrived ms rule: accepted_contributions.induct) auto

lemma epoch_invariant_handler:
  assumes "epoch_invariant gm n before t"
  shows "epoch_invariant gm n before (general_message_handler gm m t)"
proof (cases "all_messages_received_for_epoch t")
  case True
  with assms show ?thesis by (simp add: handler_complete_fixed)
next
  case False
  with assms show ?thesis
    by (cases m) (auto simp: epoch_invariant_def component_defs)
qed

lemma epoch_invariant_start:
  "epoch_invariant gm n (sent s) (epoch_start gm n s)"
  by (auto simp: epoch_invariant_def epoch_start_def component_defs)

lemma handler_accept:
  assumes "source_process_id c \<in> input_components s"
    and "source_process_id c \<notin> current_input_components s"
  shows "triggering_message_ids (general_message_handler gm (Chalith c) s) =
           triggering_message_ids s @ [message_id c]"
    and "current_message (general_message_handler gm (Chalith c) s) =
           current_message s @ msg_chalith_value c @
           (if input_components s = insert (source_process_id c) (current_input_components s)
            then chalith_value s else [])"
    and "all_messages_received_for_epoch (general_message_handler gm (Chalith c) s) \<longleftrightarrow>
           input_components s = insert (source_process_id c) (current_input_components s)"
  using assms by (simp_all add: component_defs)

lemma handler_reject:
  assumes "\<not> (source_process_id c \<in> input_components s
              \<and> source_process_id c \<notin> current_input_components s)"
  shows "general_message_handler gm (Chalith c) s = s"
  using assms by (auto simp: general_message_handler_def)

lemma run_from_incomplete:
  assumes "\<not> all_messages_received_for_epoch s"
  shows "triggering_message_ids (handle_messages gm ms s) =
           triggering_message_ids s @
           map message_id (accepted_contributions (input_components s)
                             (current_input_components s) ms)
       \<and> current_message (handle_messages gm ms s) =
           current_message s @
           concat (map msg_chalith_value (accepted_contributions (input_components s)
                                            (current_input_components s) ms)) @
           (if all_messages_received_for_epoch (handle_messages gm ms s)
            then chalith_value s else [])"
  using assms
proof (induction ms arbitrary: s)
  case Nil
  then show ?case by simp
next
  case (Cons m ms)
  show ?case
  proof (cases m)
    case OtherObject
    with Cons show ?thesis by (simp add: general_message_handler_def)
  next
    case (Chalith c)
    show ?thesis
    proof (cases "source_process_id c \<in> input_components s
                  \<and> source_process_id c \<notin> current_input_components s")
      case False
      then have "general_message_handler gm m s = s"
        using Chalith by (simp add: handler_reject)
      with Cons False Chalith show ?thesis by auto
    next
      case True
      let ?s' = "general_message_handler gm m s"
      note step = handler_accept [of c s gm, folded Chalith]
      have arrived': "current_input_components ?s' =
                        insert (source_process_id c) (current_input_components s)"
        using True Chalith by (simp add: handler_arrived)
      show ?thesis
      proof (cases "all_messages_received_for_epoch ?s'")
        case finished: True
        from finished have fixed: "handle_messages gm ms ?s' = ?s'"
          by (rule handle_messages_complete_fixed)
        from finished have eq: "input_components s =
                       insert (source_process_id c) (current_input_components s)"
          using True step(3) by simp
        then have "input_components s \<subseteq> insert (source_process_id c) (current_input_components s)"
          by simp
        then have none: "accepted_contributions (input_components s)
                     (insert (source_process_id c) (current_input_components s)) ms = []"
          by (rule accepted_none)
        show ?thesis
          using fixed none finished True Chalith step(1,2) eq by simp
      next
        case notyet: False
        then have neq: "input_components s \<noteq>
                       insert (source_process_id c) (current_input_components s)"
          using True step(3) by simp
        show ?thesis
          using Cons.IH[OF notyet] True Chalith step(1,2) neq arrived' by simp
      qed
    qed
  qed
qed

lemmas run_defs =
  contribution_def init_component_def epoch_start_def component_defs insert_commute

lemma epoch_run_final:
  fixes gm ms n s
  defines "t \<equiv> handle_messages gm ms (epoch_start gm n s)"
  shows "sent t = sent s @ (if all_messages_received_for_epoch t then [published gm t] else [])"
    and "all_messages_received_for_epoch t \<Longrightarrow>
           current_message t =
             concat (map msg_chalith_value
                       (accepted_contributions (input_components s) {} ms)) @ chalith_value s"
    and "triggering_message_ids t =
           map message_id (accepted_contributions (input_components s) {} ms)"
    and "latest_epoch t = n"
proof -
  let ?u = "epoch_start gm n s"
  have "\<forall>t \<in> set (observations gm ms ?u). epoch_invariant gm n (sent s) t"
    by (rule observations_invariant [OF epoch_invariant_start epoch_invariant_handler])
  moreover have "t \<in> set (observations gm ms ?u)"
    unfolding t_def last_observations [symmetric] by (rule last_in_set) simp
  ultimately have inv: "epoch_invariant gm n (sent s) t"
    by blast
  then show "sent t = sent s @ (if all_messages_received_for_epoch t then [published gm t] else [])"
    and "latest_epoch t = n"
    by (simp_all add: epoch_invariant_def)
  have u: "input_components ?u = input_components s" "current_input_components ?u = {}"
    "chalith_value ?u = chalith_value s" "triggering_message_ids ?u = []"
    by (simp_all add: epoch_start_def clear_epoch_variables_def)
  show "triggering_message_ids t =
           map message_id (accepted_contributions (input_components s) {} ms)"
  proof (cases "all_messages_received_for_epoch ?u")
    case True
    then have "input_components s = {}"
      using u by (simp add: all_messages_received_for_epoch_def)
    with True u show ?thesis
      by (simp add: t_def handle_messages_complete_fixed accepted_none)
  next
    case False
    from run_from_incomplete [OF False, of gm ms] u show ?thesis
      by (simp add: t_def)
  qed
  assume fin: "all_messages_received_for_epoch t"
  show "current_message t =
             concat (map msg_chalith_value
                       (accepted_contributions (input_components s) {} ms)) @ chalith_value s"
  proof (cases "all_messages_received_for_epoch ?u")
    case True
    then have e: "input_components s = {}"
      using u by (simp add: all_messages_received_for_epoch_def)
    then have "current_message ?u = chalith_value s"
      by (simp add: epoch_start_def component_defs)
    with True e show ?thesis
      by (simp add: t_def handle_messages_complete_fixed accepted_none)
  next
    case False
    then have "input_components s \<noteq> {}"
      using u by (auto simp: all_messages_received_for_epoch_def)
    then have "current_message ?u = []"
      by (auto simp: epoch_start_def component_defs)
    with run_from_incomplete [OF False, of gm ms] u fin show ?thesis
      by (simp add: t_def)
  qed
qed

section \<open>Completion predicate\<close>

text \<open>
  C1. The completion predicate \<^verbatim>\<open>all_messages_received_for_epoch\<close> holds exactly when
  the set of arrived participants equals the expected set.
\<close>

theorem all_messages_received_iff_arrived_eq_expected:
  "all_messages_received_for_epoch s \<longleftrightarrow>
     current_input_components s = input_components s"
  by (auto simp: all_messages_received_for_epoch_def)

text \<open>With \<open>A\<close> and \<open>B\<close> expected: complete when both have arrived, not before.\<close>

theorem all_messages_received_iff_arrived_eq_expected_witness:
  "all_messages_received_for_epoch
     \<lparr>chalith_value = ''test'', input_components = {''A'', ''B''},
      current_message = ''xy'', current_input_components = {''B'', ''A''},
      latest_epoch = 1, triggering_message_ids = [''m1'', ''m2''], sent = []\<rparr>
   \<and> \<not> all_messages_received_for_epoch
     \<lparr>chalith_value = ''test'', input_components = {''A'', ''B''},
      current_message = ''x'', current_input_components = {''A''},
      latest_epoch = 1, triggering_message_ids = [''m1''], sent = []\<rparr>"
  using all_messages_received_iff_arrived_eq_expected
          [of "\<lparr>chalith_value = ''test'', input_components = {''A'', ''B''},
                current_message = ''xy'', current_input_components = {''B'', ''A''},
                latest_epoch = 1, triggering_message_ids = [''m1'', ''m2''], sent = []\<rparr>"]
        all_messages_received_iff_arrived_eq_expected
          [of "\<lparr>chalith_value = ''test'', input_components = {''A'', ''B''},
                current_message = ''x'', current_input_components = {''A''},
                latest_epoch = 1, triggering_message_ids = [''m1''], sent = []\<rparr>"]
  by (simp add: insert_commute)

section \<open>The epoch tag of a contribution\<close>

text \<open>
  The handler never reads \<^verbatim>\<open>epoch_number\<close> of the message. With \<open>A\<close> and \<open>B\<close>
  expected and the component collecting for epoch 1, a contribution of \<open>A\<close> tagged with
  epoch 2 is folded: \<open>A\<close> joins the arrived set, its value the accumulator and its
  message id the causal ids.
\<close>

theorem stale_epoch_contribution_counterexample:
  "epoch_number \<lparr>source_process_id = ''A'', message_id = ''m1'', epoch_number = 2,
                 msg_chalith_value = ''x''\<rparr>
     \<noteq> latest_epoch
         \<lparr>chalith_value = ''test'', input_components = {''A'', ''B''},
          current_message = '''', current_input_components = {},
          latest_epoch = 1, triggering_message_ids = [], sent = []\<rparr>
   \<and> general_message_handler (\<lambda>_. True)
       (Chalith \<lparr>source_process_id = ''A'', message_id = ''m1'', epoch_number = 2,
                 msg_chalith_value = ''x''\<rparr>)
       \<lparr>chalith_value = ''test'', input_components = {''A'', ''B''},
        current_message = '''', current_input_components = {},
        latest_epoch = 1, triggering_message_ids = [], sent = []\<rparr>
     = \<lparr>chalith_value = ''test'', input_components = {''A'', ''B''},
        current_message = ''x'', current_input_components = {''A''},
        latest_epoch = 1, triggering_message_ids = [''m1''], sent = []\<rparr>"
  by (simp add: component_defs)

text \<open>
  C2, as the code has it. A contribution whose epoch tag differs from the current epoch
  number is handled exactly as the same contribution tagged with the current epoch: the
  component is left unchanged when the sender is foreign or has already arrived, and
  otherwise the contribution is folded into the epoch state.
\<close>

theorem epoch_tag_not_consulted:
  assumes "epoch_number m \<noteq> latest_epoch s"
  shows "general_message_handler gm (Chalith m) s =
           general_message_handler gm (Chalith (m\<lparr>epoch_number := latest_epoch s\<rparr>)) s
       \<and> (source_process_id m \<notin> input_components s
            \<or> source_process_id m \<in> current_input_components s
          \<longrightarrow> general_message_handler gm (Chalith m) s = s)
       \<and> (source_process_id m \<in> input_components s
            \<and> source_process_id m \<notin> current_input_components s
          \<longrightarrow> current_input_components (general_message_handler gm (Chalith m) s) =
                insert (source_process_id m) (current_input_components s)
              \<and> triggering_message_ids (general_message_handler gm (Chalith m) s) =
                triggering_message_ids s @ [message_id m]
              \<and> current_message (general_message_handler gm (Chalith m) s) =
                current_message s @ msg_chalith_value m @
                (if input_components s =
                      insert (source_process_id m) (current_input_components s)
                 then chalith_value s else []))"
proof (intro conjI impI)
  show "general_message_handler gm (Chalith m) s =
          general_message_handler gm (Chalith (m\<lparr>epoch_number := latest_epoch s\<rparr>)) s"
    by (simp add: general_message_handler_def)
next
  assume "source_process_id m \<notin> input_components s
            \<or> source_process_id m \<in> current_input_components s"
  then show "general_message_handler gm (Chalith m) s = s"
    by (auto simp: handler_reject)
next
  assume a: "source_process_id m \<in> input_components s
            \<and> source_process_id m \<notin> current_input_components s"
  then show "current_input_components (general_message_handler gm (Chalith m) s) =
                insert (source_process_id m) (current_input_components s)"
    by (simp add: handler_arrived)
  from a show "triggering_message_ids (general_message_handler gm (Chalith m) s) =
                triggering_message_ids s @ [message_id m]"
    by (simp add: handler_accept(1))
  from a show "current_message (general_message_handler gm (Chalith m) s) =
                current_message s @ msg_chalith_value m @
                (if input_components s =
                      insert (source_process_id m) (current_input_components s)
                 then chalith_value s else [])"
    by (simp add: handler_accept(2))
qed

text \<open>A contribution of \<open>A\<close> and one of the foreign \<open>C\<close>, both tagged with epoch 2 in epoch 1.\<close>

theorem epoch_tag_not_consulted_witness:
  "epoch_number \<lparr>source_process_id = ''A'', message_id = ''m1'', epoch_number = 2,
                 msg_chalith_value = ''x''\<rparr>
     \<noteq> latest_epoch (epoch_start (\<lambda>_. True) 1 (init_component {''A'', ''B''} ''test''))
   \<and> general_message_handler (\<lambda>_. True)
       (Chalith \<lparr>source_process_id = ''A'', message_id = ''m1'', epoch_number = 2,
                 msg_chalith_value = ''x''\<rparr>)
       (epoch_start (\<lambda>_. True) 1 (init_component {''A'', ''B''} ''test''))
     = general_message_handler (\<lambda>_. True) (contribution ''A'' ''m1'' 1 ''x'')
       (epoch_start (\<lambda>_. True) 1 (init_component {''A'', ''B''} ''test''))
   \<and> epoch_number \<lparr>source_process_id = ''C'', message_id = ''m7'', epoch_number = 2,
                   msg_chalith_value = ''z''\<rparr>
     \<noteq> latest_epoch (epoch_start (\<lambda>_. True) 1 (init_component {''A'', ''B''} ''test''))
   \<and> general_message_handler (\<lambda>_. True)
       (Chalith \<lparr>source_process_id = ''C'', message_id = ''m7'', epoch_number = 2,
                 msg_chalith_value = ''z''\<rparr>)
       (epoch_start (\<lambda>_. True) 1 (init_component {''A'', ''B''} ''test''))
     = epoch_start (\<lambda>_. True) 1 (init_component {''A'', ''B''} ''test'')"
proof -
  let ?s = "epoch_start (\<lambda>_. True) 1 (init_component {''A'', ''B''} ''test'')"
  let ?a = "\<lparr>source_process_id = ''A'', message_id = ''m1'', epoch_number = 2,
             msg_chalith_value = ''x''\<rparr>"
  let ?c = "\<lparr>source_process_id = ''C'', message_id = ''m7'', epoch_number = 2,
             msg_chalith_value = ''z''\<rparr>"
  have s: "latest_epoch ?s = 1" "input_components ?s = {''A'', ''B''}"
    by (simp_all add: epoch_start_def init_component_def clear_epoch_variables_def)
  have ha: "epoch_number ?a \<noteq> latest_epoch ?s" and hc: "epoch_number ?c \<noteq> latest_epoch ?s"
    by (simp_all add: s)
  have retag: "Chalith (?a\<lparr>epoch_number := latest_epoch ?s\<rparr>) = contribution ''A'' ''m1'' 1 ''x''"
    by (simp add: s contribution_def)
  from epoch_tag_not_consulted [OF ha, of "\<lambda>_. True"]
  have "general_message_handler (\<lambda>_. True) (Chalith ?a) ?s =
          general_message_handler (\<lambda>_. True)
            (Chalith (?a\<lparr>epoch_number := latest_epoch ?s\<rparr>)) ?s"
    by blast
  then have same: "general_message_handler (\<lambda>_. True) (Chalith ?a) ?s =
          general_message_handler (\<lambda>_. True) (contribution ''A'' ''m1'' 1 ''x'') ?s"
    by (simp only: retag)
  have foreign: "source_process_id ?c \<notin> input_components ?s"
    by (simp add: s)
  from epoch_tag_not_consulted [OF hc, of "\<lambda>_. True"] foreign
  have "general_message_handler (\<lambda>_. True) (Chalith ?c) ?s = ?s"
    by blast
  with ha hc same show ?thesis by blast
qed

section \<open>Ignored contributions\<close>

text \<open>
  C3. A contribution from a participant that is already in the arrived set leaves the
  component unchanged: accumulator, causal ids, arrived set and everything else.
\<close>

theorem duplicate_contribution_ignored:
  "source_process_id m \<in> current_input_components s \<Longrightarrow>
     general_message_handler get_message (Chalith m) s = s"
  by (simp add: general_message_handler_def)

theorem duplicate_contribution_ignored_witness:
  "source_process_id \<lparr>source_process_id = ''A'', message_id = ''m3'', epoch_number = 1,
                     msg_chalith_value = ''z''\<rparr>
     \<in> current_input_components
         \<lparr>chalith_value = ''test'', input_components = {''A'', ''B''},
          current_message = ''x'', current_input_components = {''A''},
          latest_epoch = 1, triggering_message_ids = [''m1''], sent = []\<rparr>
   \<and> general_message_handler (\<lambda>_. True)
       (Chalith \<lparr>source_process_id = ''A'', message_id = ''m3'', epoch_number = 1,
                 msg_chalith_value = ''z''\<rparr>)
       \<lparr>chalith_value = ''test'', input_components = {''A'', ''B''},
        current_message = ''x'', current_input_components = {''A''},
        latest_epoch = 1, triggering_message_ids = [''m1''], sent = []\<rparr>
     = \<lparr>chalith_value = ''test'', input_components = {''A'', ''B''},
        current_message = ''x'', current_input_components = {''A''},
        latest_epoch = 1, triggering_message_ids = [''m1''], sent = []\<rparr>"
  using duplicate_contribution_ignored
          [of "\<lparr>source_process_id = ''A'', message_id = ''m3'', epoch_number = 1,
                msg_chalith_value = ''z''\<rparr>"
              "\<lparr>chalith_value = ''test'', input_components = {''A'', ''B''},
                current_message = ''x'', current_input_components = {''A''},
                latest_epoch = 1, triggering_message_ids = [''m1''], sent = []\<rparr>"
              "\<lambda>_. True"]
  by simp

text \<open>
  C4. A contribution whose sender is not in the expected set leaves the component
  unchanged.
\<close>

theorem foreign_contribution_ignored:
  "source_process_id m \<notin> input_components s \<Longrightarrow>
     general_message_handler get_message (Chalith m) s = s"
  by (simp add: general_message_handler_def)

theorem foreign_contribution_ignored_witness:
  "source_process_id \<lparr>source_process_id = ''C'', message_id = ''m9'', epoch_number = 1,
                     msg_chalith_value = ''z''\<rparr>
     \<notin> input_components
         \<lparr>chalith_value = ''test'', input_components = {''A'', ''B''},
          current_message = ''x'', current_input_components = {''A''},
          latest_epoch = 1, triggering_message_ids = [''m1''], sent = []\<rparr>
   \<and> general_message_handler (\<lambda>_. True)
       (Chalith \<lparr>source_process_id = ''C'', message_id = ''m9'', epoch_number = 1,
                 msg_chalith_value = ''z''\<rparr>)
       \<lparr>chalith_value = ''test'', input_components = {''A'', ''B''},
        current_message = ''x'', current_input_components = {''A''},
        latest_epoch = 1, triggering_message_ids = [''m1''], sent = []\<rparr>
     = \<lparr>chalith_value = ''test'', input_components = {''A'', ''B''},
        current_message = ''x'', current_input_components = {''A''},
        latest_epoch = 1, triggering_message_ids = [''m1''], sent = []\<rparr>"
  using foreign_contribution_ignored
          [of "\<lparr>source_process_id = ''C'', message_id = ''m9'', epoch_number = 1,
                msg_chalith_value = ''z''\<rparr>"
              "\<lparr>chalith_value = ''test'', input_components = {''A'', ''B''},
                current_message = ''x'', current_input_components = {''A''},
                latest_epoch = 1, triggering_message_ids = [''m1''], sent = []\<rparr>"
              "\<lambda>_. True"]
  by simp

section \<open>The arrived set\<close>

text \<open>
  C7. Resetting the epoch variables leaves the arrived set inside the expected set.
  From any state where it is inside, at every observation point of any sequence of
  deliveries the expected set is the same and the arrived set is inside it, and from each
  observation point to the next the arrived set only grows.
\<close>

theorem arrived_within_expected_and_growing:
  "current_input_components (clear_epoch_variables s0)
     \<subseteq> input_components (clear_epoch_variables s0)
   \<and> (current_input_components s \<subseteq> input_components s \<longrightarrow>
        (\<forall>t \<in> set (observations gm ms s).
            input_components t = input_components s
          \<and> current_input_components t \<subseteq> input_components s)
      \<and> successively (\<lambda>a b. current_input_components a \<subseteq> current_input_components b)
          (observations gm ms s))"
proof (intro conjI impI)
  show "current_input_components (clear_epoch_variables s0)
          \<subseteq> input_components (clear_epoch_variables s0)"
    by (simp add: clear_epoch_variables_def)
next
  assume inside: "current_input_components s \<subseteq> input_components s"
  let ?P = "\<lambda>t. input_components t = input_components s
                \<and> current_input_components t \<subseteq> input_components s"
  have "?P s" using inside by simp
  moreover have "\<And>m t. ?P t \<Longrightarrow> ?P (general_message_handler gm m t)"
    using handler_arrived_subset by (metis handler_frame(1))
  ultimately show "\<forall>t \<in> set (observations gm ms s). ?P t"
    by (rule observations_invariant)
next
  show "successively (\<lambda>a b. current_input_components a \<subseteq> current_input_components b)
          (observations gm ms s)"
    by (rule observations_arrived_grow)
qed

text \<open>
  After a reset with \<open>A\<close> and \<open>B\<close> expected: a contribution of \<open>A\<close>, one of the
  foreign \<open>C\<close>, a second one of \<open>A\<close> and one of \<open>B\<close>.
\<close>

theorem arrived_within_expected_and_growing_witness:
  "current_input_components (clear_epoch_variables (init_component {''A'', ''B''} ''test''))
     \<subseteq> input_components (clear_epoch_variables (init_component {''A'', ''B''} ''test''))
   \<and> handle_messages (\<lambda>_. True)
        [contribution ''A'' ''m1'' 1 ''x'', contribution ''C'' ''m7'' 1 ''z'',
         contribution ''A'' ''m3'' 1 ''w'', contribution ''B'' ''m2'' 1 ''y'']
        (clear_epoch_variables (init_component {''A'', ''B''} ''test''))
     \<in> set (observations (\<lambda>_. True)
        [contribution ''A'' ''m1'' 1 ''x'', contribution ''C'' ''m7'' 1 ''z'',
         contribution ''A'' ''m3'' 1 ''w'', contribution ''B'' ''m2'' 1 ''y'']
        (clear_epoch_variables (init_component {''A'', ''B''} ''test'')))
   \<and> current_input_components (handle_messages (\<lambda>_. True)
        [contribution ''A'' ''m1'' 1 ''x'', contribution ''C'' ''m7'' 1 ''z'',
         contribution ''A'' ''m3'' 1 ''w'', contribution ''B'' ''m2'' 1 ''y'']
        (clear_epoch_variables (init_component {''A'', ''B''} ''test'')))
     \<subseteq> input_components (clear_epoch_variables (init_component {''A'', ''B''} ''test''))
   \<and> successively (\<lambda>a b. current_input_components a \<subseteq> current_input_components b)
       (observations (\<lambda>_. True)
          [contribution ''A'' ''m1'' 1 ''x'', contribution ''C'' ''m7'' 1 ''z'',
           contribution ''A'' ''m3'' 1 ''w'', contribution ''B'' ''m2'' 1 ''y'']
          (clear_epoch_variables (init_component {''A'', ''B''} ''test'')))
   \<and> map current_input_components
       (observations (\<lambda>_. True)
          [contribution ''A'' ''m1'' 1 ''x'', contribution ''C'' ''m7'' 1 ''z'',
           contribution ''A'' ''m3'' 1 ''w'', contribution ''B'' ''m2'' 1 ''y'']
          (clear_epoch_variables (init_component {''A'', ''B''} ''test'')))
     = [{}, {''A''}, {''A''}, {''A''}, {''A'', ''B''}]"
proof -
  let ?init = "init_component {''A'', ''B''} ''test''"
  let ?s = "clear_epoch_variables ?init"
  let ?ms = "[contribution ''A'' ''m1'' 1 ''x'', contribution ''C'' ''m7'' 1 ''z'',
              contribution ''A'' ''m3'' 1 ''w'', contribution ''B'' ''m2'' 1 ''y'']"
  note w = arrived_within_expected_and_growing [of ?init ?s "\<lambda>_. True" ?ms]
  have h: "current_input_components ?s \<subseteq> input_components ?s"
    by (rule w [THEN conjunct1])
  note run = w [THEN conjunct2, THEN mp, OF h]
  have mem: "handle_messages (\<lambda>_. True) ?ms ?s \<in> set (observations (\<lambda>_. True) ?ms ?s)"
    unfolding last_observations [symmetric] by (rule last_in_set) simp
  have inside: "current_input_components (handle_messages (\<lambda>_. True) ?ms ?s)
                  \<subseteq> input_components ?s"
    by (rule run [THEN conjunct1, THEN bspec, OF mem, THEN conjunct2])
  have v: "map current_input_components (observations (\<lambda>_. True) ?ms ?s)
             = [{}, {''A''}, {''A''}, {''A''}, {''A'', ''B''}]"
    by (simp add: run_defs)
  show ?thesis
    by (rule conjI [OF h conjI [OF mem conjI [OF inside conjI [OF run [THEN conjunct2] v]]]])
qed

section \<open>Publication\<close>




text \<open>
  C10. The value of a result message sent by \<open>process_epoch\<close> is the accumulator
  followed by the component's own \<open>chalith_value\<close>, or \<open>chalith_value\<close> alone when
  nobody has arrived. Over an epoch, the value of every result message sent is the
  concatenation, in arrival order, of the values of the accepted contributions, followed
  by \<open>chalith_value\<close>.
\<close>

theorem published_value_ends_with_own_value:
  "(ResultMessage a \<in> set (drop (length (sent s)) (sent (fst (process_epoch gm s)))) \<longrightarrow>
      ChalithValue a =
        (if current_input_components s \<noteq> {} then current_message s else []) @ chalith_value s)
   \<and> (ResultMessage b
         \<in> set (drop (length (sent s)) (sent (handle_messages gm ms (epoch_start gm n s)))) \<longrightarrow>
      ChalithValue b =
        concat (map msg_chalith_value
                  (accepted_contributions (input_components s) {} ms)) @ chalith_value s)"
proof (intro conjI impI)
  assume "ResultMessage a \<in> set (drop (length (sent s)) (sent (fst (process_epoch gm s))))"
  then show "ChalithValue a =
        (if current_input_components s \<noteq> {} then current_message s else []) @ chalith_value s"
    by (auto simp: process_epoch_def send_chalith_message_def Let_def split: if_splits)
next
  let ?t = "handle_messages gm ms (epoch_start gm n s)"
  assume new: "ResultMessage b \<in> set (drop (length (sent s)) (sent ?t))"
  note fin = epoch_run_final [of gm ms n s]
  show "ChalithValue b =
        concat (map msg_chalith_value
                  (accepted_contributions (input_components s) {} ms)) @ chalith_value s"
  proof (cases "all_messages_received_for_epoch ?t")
    case True
    with fin(1) new have "ResultMessage b = published gm ?t" by simp
    then have "ChalithValue b = current_message ?t"
      by (auto simp: published_def Let_def split: if_splits)
    with fin(2) [OF True] show ?thesis by simp
  next
    case False
    with fin(1) new show ?thesis by simp
  qed
qed

text \<open>
  \<open>process_epoch\<close> with accumulator \<open>xy\<close>, and the epoch with contributions of \<open>A\<close>,
  the foreign \<open>C\<close>, \<open>A\<close> again and \<open>B\<close>: the value sent is \<open>xytest\<close> both times.
\<close>

theorem published_value_ends_with_own_value_witness:
  "ResultMessage \<lparr>EpochNumber = 1, TriggeringMessageIds = [''m1'', ''m2''],
                  ChalithValue = ''xytest''\<rparr>
     \<in> set (drop (length (sent (init_component {''A'', ''B''} ''test'')))
              (sent (handle_messages (\<lambda>_. True)
                       [contribution ''A'' ''m1'' 1 ''x'', contribution ''C'' ''m7'' 1 ''z'',
                        contribution ''A'' ''m3'' 1 ''w'', contribution ''B'' ''m2'' 1 ''y'']
                       (epoch_start (\<lambda>_. True) 1 (init_component {''A'', ''B''} ''test'')))))
   \<and> ChalithValue \<lparr>EpochNumber = 1, TriggeringMessageIds = [''m1'', ''m2''],
                   ChalithValue = ''xytest''\<rparr>
     = concat (map msg_chalith_value
                 (accepted_contributions (input_components (init_component {''A'', ''B''} ''test'')) {}
                    [contribution ''A'' ''m1'' 1 ''x'', contribution ''C'' ''m7'' 1 ''z'',
                     contribution ''A'' ''m3'' 1 ''w'', contribution ''B'' ''m2'' 1 ''y'']))
       @ chalith_value (init_component {''A'', ''B''} ''test'')
   \<and> accepted_contributions (input_components (init_component {''A'', ''B''} ''test'')) {}
        [contribution ''A'' ''m1'' 1 ''x'', contribution ''C'' ''m7'' 1 ''z'',
         contribution ''A'' ''m3'' 1 ''w'', contribution ''B'' ''m2'' 1 ''y'']
     = [\<lparr>source_process_id = ''A'', message_id = ''m1'', epoch_number = 1,
          msg_chalith_value = ''x''\<rparr>,
        \<lparr>source_process_id = ''B'', message_id = ''m2'', epoch_number = 1,
          msg_chalith_value = ''y''\<rparr>]
   \<and> ResultMessage \<lparr>EpochNumber = 1, TriggeringMessageIds = [''m1'', ''m2''],
                    ChalithValue = ''xytest''\<rparr>
     \<in> set (drop (length (sent
                \<lparr>chalith_value = ''test'', input_components = {''A'', ''B''},
                 current_message = ''xy'', current_input_components = {''A'', ''B''},
                 latest_epoch = 1, triggering_message_ids = [''m1'', ''m2''], sent = []\<rparr>))
              (sent (fst (process_epoch (\<lambda>_. True)
                \<lparr>chalith_value = ''test'', input_components = {''A'', ''B''},
                 current_message = ''xy'', current_input_components = {''A'', ''B''},
                 latest_epoch = 1, triggering_message_ids = [''m1'', ''m2''], sent = []\<rparr>))))"
proof -
  let ?s = "init_component {''A'', ''B''} ''test''"
  let ?ms = "[contribution ''A'' ''m1'' 1 ''x'', contribution ''C'' ''m7'' 1 ''z'',
              contribution ''A'' ''m3'' 1 ''w'', contribution ''B'' ''m2'' 1 ''y'']"
  let ?a = "\<lparr>EpochNumber = 1, TriggeringMessageIds = [''m1'', ''m2''],
             ChalithValue = ''xytest''\<rparr>"
  let ?p = "\<lparr>chalith_value = ''test'', input_components = {''A'', ''B''},
             current_message = ''xy'', current_input_components = {''A'', ''B''},
             latest_epoch = 1, triggering_message_ids = [''m1'', ''m2''], sent = []\<rparr>"
  have h: "ResultMessage ?a
     \<in> set (drop (length (sent ?s))
              (sent (handle_messages (\<lambda>_. True) ?ms (epoch_start (\<lambda>_. True) 1 ?s))))"
    by (simp add: run_defs)
  have acc: "accepted_contributions (input_components ?s) {} ?ms
     = [\<lparr>source_process_id = ''A'', message_id = ''m1'', epoch_number = 1,
          msg_chalith_value = ''x''\<rparr>,
        \<lparr>source_process_id = ''B'', message_id = ''m2'', epoch_number = 1,
          msg_chalith_value = ''y''\<rparr>]"
    by (simp add: contribution_def init_component_def)
  have p: "ResultMessage ?a
     \<in> set (drop (length (sent ?p)) (sent (fst (process_epoch (\<lambda>_. True) ?p))))"
    by (simp add: process_epoch_def send_chalith_message_def)
  note w = published_value_ends_with_own_value
             [of ?a ?s "\<lambda>_. True" ?a ?ms 1, THEN conjunct2, THEN mp, OF h]
  show ?thesis
    by (rule conjI [OF h conjI [OF w conjI [OF acc p]]])
qed

section \<open>The scenario with two participants\<close>

text \<open>
  With the component's own value \<open>test\<close> (the default of \<^verbatim>\<open>CHALITH_VALUE\<close>), the
  scenario's envelope carries the value \<open>xytest\<close>, not \<open>xy\<close>.
\<close>

theorem scenario_value_counterexample:
  "sent (handle_messages (\<lambda>_. True)
           [contribution ''A'' ''m1'' 1 ''x'', contribution ''B'' ''m2'' 1 ''y'']
           (epoch_start (\<lambda>_. True) 1 (init_component {''A'', ''B''} ''test'')))
     = [ResultMessage \<lparr>EpochNumber = 1, TriggeringMessageIds = [''m1'', ''m2''],
                       ChalithValue = ''xytest''\<rparr>]
   \<and> sent (handle_messages (\<lambda>_. True)
           [contribution ''A'' ''m1'' 1 ''x'', contribution ''B'' ''m2'' 1 ''y'']
           (epoch_start (\<lambda>_. True) 1 (init_component {''A'', ''B''} ''test'')))
     \<noteq> [ResultMessage \<lparr>EpochNumber = 1, TriggeringMessageIds = [''m1'', ''m2''],
                       ChalithValue = ''xy''\<rparr>]"
  by (simp add: run_defs)

text \<open>
  C5, as the code has it. With expected set \<open>{A, B}\<close>: after the epoch start for epoch
  1, a contribution of \<open>A\<close> with value \<open>x\<close> and message id \<open>m1\<close> and then one of
  \<open>B\<close> with value \<open>y\<close> and message id \<open>m2\<close>, the one message sent is the result
  message with epoch 1, causal ids \<open>m1, m2\<close> and the value \<open>xy\<close> followed by the
  component's own \<open>chalith_value\<close>.
\<close>

theorem scenario_two_contributions:
  assumes "input_components s = {''A'', ''B''}"
    and "gm \<lparr>EpochNumber = 1, TriggeringMessageIds = [''m1'', ''m2''],
             ChalithValue = ''xy'' @ chalith_value s\<rparr>"
  shows "sent (handle_messages gm
                 [contribution ''A'' ''m1'' 1 ''x'', contribution ''B'' ''m2'' 1 ''y'']
                 (epoch_start gm 1 s))
           = sent s @ [ResultMessage \<lparr>EpochNumber = 1,
                                      TriggeringMessageIds = [''m1'', ''m2''],
                                      ChalithValue = ''xy'' @ chalith_value s\<rparr>]"
  using assms by (simp add: run_defs)

text \<open>With an empty own value the envelope carries \<open>xy\<close>.\<close>

theorem scenario_two_contributions_witness:
  "input_components (init_component {''A'', ''B''} '''') = {''A'', ''B''}
   \<and> sent (handle_messages (\<lambda>_. True)
             [contribution ''A'' ''m1'' 1 ''x'', contribution ''B'' ''m2'' 1 ''y'']
             (epoch_start (\<lambda>_. True) 1 (init_component {''A'', ''B''} '''')))
       = [ResultMessage \<lparr>EpochNumber = 1, TriggeringMessageIds = [''m1'', ''m2''],
                         ChalithValue = ''xy''\<rparr>]"
proof -
  let ?s = "init_component {''A'', ''B''} ''''"
  have e: "input_components ?s = {''A'', ''B''}"
    and v: "chalith_value ?s = ''''" "sent ?s = []"
    by (simp_all add: init_component_def)
  have g: "(\<lambda>_. True) \<lparr>EpochNumber = 1, TriggeringMessageIds = [''m1'', ''m2''],
             ChalithValue = ''xy'' @ chalith_value ?s\<rparr>"
    by simp
  from scenario_two_contributions [OF e g]
  have "sent (handle_messages (\<lambda>_. True)
             [contribution ''A'' ''m1'' 1 ''x'', contribution ''B'' ''m2'' 1 ''y'']
             (epoch_start (\<lambda>_. True) 1 ?s))
       = [ResultMessage \<lparr>EpochNumber = 1, TriggeringMessageIds = [''m1'', ''m2''],
                         ChalithValue = ''xy''\<rparr>]"
    by (simp only: v append_Nil append_Nil2)
  with e show ?thesis by (rule conjI)
qed

section \<open>The empty expected set\<close>

text \<open>
  With nobody expected and the own value \<open>test\<close>, the epoch is complete at its start,
  and the envelope carries \<open>test\<close>, while the accumulator is reset to the empty string.
\<close>

theorem empty_expected_set_value_counterexample:
  "all_messages_received_for_epoch (epoch_start (\<lambda>_. True) 1 (init_component {} ''test''))
   \<and> sent (epoch_start (\<lambda>_. True) 1 (init_component {} ''test''))
       = [ResultMessage \<lparr>EpochNumber = 1, TriggeringMessageIds = [],
                         ChalithValue = ''test''\<rparr>]
   \<and> current_message (clear_epoch_variables (init_component {} ''test'')) = ''''
   \<and> sent (epoch_start (\<lambda>_. True) 1 (init_component {} ''test''))
       \<noteq> [ResultMessage \<lparr>EpochNumber = 1, TriggeringMessageIds = [],
                         ChalithValue =
                           current_message (clear_epoch_variables (init_component {} ''test''))\<rparr>]"
  by (simp add: run_defs)

text \<open>
  C6, as the code has it. When the expected set is empty, the completion predicate holds
  right after the reset, with no contributions, and the epoch start publishes one
  message whose value is the component's own \<open>chalith_value\<close>.
\<close>

theorem empty_expected_set_publishes_own_value:
  assumes "input_components s = {}"
  shows "all_messages_received_for_epoch (clear_epoch_variables s)
       \<and> all_messages_received_for_epoch (epoch_start gm n s)
       \<and> current_input_components (epoch_start gm n s) = {}
       \<and> sent (epoch_start gm n s) = sent s @ [published gm (epoch_start gm n s)]
       \<and> current_message (epoch_start gm n s) = chalith_value s
       \<and> (gm \<lparr>EpochNumber = n, TriggeringMessageIds = [], ChalithValue = chalith_value s\<rparr>
          \<longrightarrow> sent (epoch_start gm n s) =
                sent s @ [ResultMessage \<lparr>EpochNumber = n, TriggeringMessageIds = [],
                                         ChalithValue = chalith_value s\<rparr>])"
  using assms by (simp add: epoch_start_def component_defs)

text \<open>Nobody expected, own value \<open>test\<close>, epoch 3.\<close>

theorem empty_expected_set_publishes_own_value_witness:
  "input_components (init_component {} ''test'') = {}
   \<and> all_messages_received_for_epoch (epoch_start (\<lambda>_. True) 3 (init_component {} ''test''))
   \<and> sent (epoch_start (\<lambda>_. True) 3 (init_component {} ''test''))
       = [ResultMessage \<lparr>EpochNumber = 3, TriggeringMessageIds = [],
                         ChalithValue = ''test''\<rparr>]"
proof -
  let ?s = "init_component {} ''test''"
  have e: "input_components ?s = {}"
    and v: "chalith_value ?s = ''test''" "sent ?s = []"
    by (simp_all add: init_component_def)
  note w = empty_expected_set_publishes_own_value [OF e, of "\<lambda>_. True" 3]
  from w have c: "all_messages_received_for_epoch (epoch_start (\<lambda>_. True) 3 ?s)"
    by blast
  from w have "sent (epoch_start (\<lambda>_. True) 3 ?s) =
                sent ?s @ [ResultMessage \<lparr>EpochNumber = 3, TriggeringMessageIds = [],
                                          ChalithValue = chalith_value ?s\<rparr>]"
    by blast
  then have "sent (epoch_start (\<lambda>_. True) 3 ?s) =
               [ResultMessage \<lparr>EpochNumber = 3, TriggeringMessageIds = [],
                                ChalithValue = ''test''\<rparr>]"
    by (simp only: v append_Nil)
  with e c show ?thesis by blast
qed

section \<open>The result of reading a message\<close>




end
